theory Spec2Isabelle
  imports Complex_Main "HOL-Library.Sublist"
begin

section \<open>Python values and the library operations the repository calls\<close>

text \<open>
  The repository is glue code over pandas, PIL and torch. The library calls it makes are
  modelled here as far as the source depends on them: what they return and when they
  raise. An exception is a value \<open>Inl e\<close> of the result; a normal return is \<open>Inr v\<close>.
\<close>

type_synonym path = string

datatype error = IndexError | KeyError | FileNotFoundError | ValueError

text \<open>Sequencing of two steps: an exception of the first step ends the computation.\<close>

definition and_then :: "error + 'a \<Rightarrow> ('a \<Rightarrow> error + 'b) \<Rightarrow> error + 'b" where
  "and_then m k = (case m of Inl e \<Rightarrow> Inl e | Inr v \<Rightarrow> k v)"

text \<open>
  \<^verbatim>\<open>xs[i]\<close> on a Python list: indices \<open>0 .. len-1\<close> count from the front, indices
  \<open>-len .. -1\<close> from the back, every other index raises IndexError.
\<close>

definition index_in_range :: "'a list \<Rightarrow> int \<Rightarrow> bool" where
  "index_in_range xs i = (- int (length xs) \<le> i \<and> i < int (length xs))"

definition list_getitem :: "'a list \<Rightarrow> int \<Rightarrow> error + 'a" where
  "list_getitem xs i =
     (if 0 \<le> i \<and> i < int (length xs) then Inr (xs ! nat i)
      else if - int (length xs) \<le> i \<and> i < 0 then Inr (xs ! nat (int (length xs) + i))
      else Inl IndexError)"

subsection \<open>Annotation tables (pandas data frames)\<close>

text \<open>
  A data frame has a number of rows (\<^verbatim>\<open>len(df)\<close>) and named columns; a column gives a
  cell for every row position. The cell type \<open>'c\<close> is whatever numeric type pandas parsed.
\<close>

record 'c dataframe =
  df_len :: nat
  df_col :: "string \<Rightarrow> (nat \<Rightarrow> 'c) option"

text \<open>\<^verbatim>\<open>df.iloc[r][c]\<close>: the row position must exist, then the column must.\<close>

definition iloc :: "'c dataframe \<Rightarrow> nat \<Rightarrow> string \<Rightarrow> error + 'c" where
  "iloc df r c =
     (if r < df_len df
      then (case df_col df c of None \<Rightarrow> Inl KeyError | Some cells \<Rightarrow> Inr (cells r))
      else Inl IndexError)"

text \<open>\<^verbatim>\<open>df[c].values\<close>: the cells of one column, in row order.\<close>

definition col_values :: "'c dataframe \<Rightarrow> string \<Rightarrow> error + 'c list" where
  "col_values df c =
     (case df_col df c of None \<Rightarrow> Inl KeyError | Some cells \<Rightarrow> Inr (map cells [0..<df_len df]))"

subsection \<open>Tensors\<close>

text \<open>
  Only the shapes the source meets are modelled: a one-dimensional tensor and a
  two-dimensional one (a list of rows). The element type \<open>'f\<close> stands for float32; its
  arithmetic is not modelled bit by bit, the source only subtracts and multiplies.
  The casts that \<^verbatim>\<open>dtype=torch.float32\<close> and \<^verbatim>\<open>dtype=torch.int64\<close> apply to a
  cell are parameters of the model. Labels, image ids and crowd flags are int64 tensors
  of one dimension, modelled as lists of integers.
\<close>

datatype 'f tensor = Tensor1 "'f list" | Tensor2 "'f list list"

record ('c, 'f) torch =
  to_float32 :: "'c \<Rightarrow> 'f"
  to_int64 :: "'c \<Rightarrow> int"

text \<open>
  \<^verbatim>\<open>torch.as_tensor(boxes, dtype=torch.float32)\<close> on a list of rows: the empty list gives
  a tensor of shape \<open>(0,)\<close>, a list of \<open>n > 0\<close> rows of four cells one of shape \<open>(n, 4)\<close>.
\<close>

definition as_tensor :: "('c \<Rightarrow> 'f) \<Rightarrow> 'c list list \<Rightarrow> 'f tensor" where
  "as_tensor cast rows = (if rows = [] then Tensor1 [] else Tensor2 (map (map cast) rows))"

text \<open>
  \<^verbatim>\<open>t[:, k]\<close>: column \<open>k\<close> of a two-dimensional tensor. On a one-dimensional tensor the
  index has too many dimensions and torch raises IndexError.
\<close>

fun column_slice :: "'f tensor \<Rightarrow> nat \<Rightarrow> error + 'f list" where
  "column_slice (Tensor1 xs) k = Inl IndexError"
| "column_slice (Tensor2 rows) k =
     (if list_all (\<lambda>r. k < length r) rows then Inr (map (\<lambda>r. r ! k) rows) else Inl IndexError)"

text \<open>Elementwise \<^verbatim>\<open>a - b\<close> and \<^verbatim>\<open>a * b\<close> of one-dimensional tensors of equal length.\<close>

definition tensor_sub :: "'f::minus list \<Rightarrow> 'f list \<Rightarrow> 'f list" where
  "tensor_sub a b = map2 (-) a b"

definition tensor_mul :: "'f::times list \<Rightarrow> 'f list \<Rightarrow> 'f list" where
  "tensor_mul a b = map2 (*) a b"

subsection \<open>Files\<close>

text \<open>
  The files the dataset reads: an image path holds a decoded image, an annotation path
  a table. \<^verbatim>\<open>Image.open(p).convert('RGB')\<close> raises FileNotFoundError when no file is at
  \<open>p\<close>; the images of \<open>image_files\<close> are taken to be the RGB images it returns otherwise.
\<close>

record ('img, 'c) filesystem =
  image_files :: "path \<Rightarrow> 'img option"
  csv_files :: "path \<Rightarrow> 'c dataframe option"

definition Image_open_RGB :: "('img, 'c) filesystem \<Rightarrow> path \<Rightarrow> error + 'img" where
  "Image_open_RGB fs p =
     (case image_files fs p of None \<Rightarrow> Inl FileNotFoundError | Some img \<Rightarrow> Inr img)"

text \<open>
  Modelled from the spec: \<^verbatim>\<open>csv_to_df\<close> is imported from the package's \<^verbatim>\<open>utils\<close> module,
  which is not among the source files. The specification says that the dataset loads the
  annotation CSV of the image as a table and that a missing file surfaces as the I/O
  error of the underlying library.
\<close>

definition csv_to_df :: "('img, 'c) filesystem \<Rightarrow> path \<Rightarrow> error + 'c dataframe" where
  "csv_to_df fs p =
     (case csv_files fs p of None \<Rightarrow> Inl FileNotFoundError | Some df \<Rightarrow> Inr df)"

section \<open>The detection dataset (src/data/dataloader.py)\<close>

record 'f target =
  boxes :: "'f tensor"
  labels :: "int list"
  image_id :: "int list"
  area :: "'f list"
  iscrowd :: "int list"

record ('img, 'f) dataset =
  jpg_paths :: "path list"
  csv_paths :: "path list"
  transform :: "('img \<times> 'f target \<Rightarrow> 'img \<times> 'f target) option"
  bird_only :: bool

text \<open>\<^verbatim>\<open>__init__\<close> stores its four arguments and checks nothing.\<close>

definition init :: "path list \<Rightarrow> path list \<Rightarrow> ('img \<times> 'f target \<Rightarrow> 'img \<times> 'f target) option
    \<Rightarrow> bool \<Rightarrow> ('img, 'f) dataset" where
  "init jpg_paths' csv_paths' transform' bird_only' =
     \<lparr>jpg_paths = jpg_paths', csv_paths = csv_paths', transform = transform',
      bird_only = bird_only'\<rparr>"

text \<open>\<^verbatim>\<open>__len__\<close>.\<close>

definition len :: "('img, 'f) dataset \<Rightarrow> nat" where
  "len self = length (jpg_paths self)"

text \<open>
  The loop of \<^verbatim>\<open>__getitem__\<close> that fills the list \<^verbatim>\<open>boxes\<close>: \<open>row_idx\<close> runs over the given
  positions, each step appends one row \<open>[xmin, ymin, xmax, ymax]\<close>.
\<close>

fun boxes_loop :: "'c dataframe \<Rightarrow> nat list \<Rightarrow> 'c list list \<Rightarrow> error + 'c list list" where
  "boxes_loop target_df [] boxes_list = Inr boxes_list"
| "boxes_loop target_df (row_idx # rest) boxes_list =
     and_then (iloc target_df row_idx ''xmin'') (\<lambda>x_1.
     and_then (iloc target_df row_idx ''ymin'') (\<lambda>y_1.
     and_then (iloc target_df row_idx ''xmax'') (\<lambda>x_2.
     and_then (iloc target_df row_idx ''ymax'') (\<lambda>y_2.
     boxes_loop target_df rest (boxes_list @ [[x_1, y_1, x_2, y_2]])))))"

text \<open>
  \<^verbatim>\<open>__getitem__\<close>, statement by statement. The transform is a function on the pair; the
  type of the returned pair is the type of the pair it is given.
\<close>

definition getitem :: "('c, 'f::{minus,times}) torch \<Rightarrow> ('img, 'f) dataset \<Rightarrow> ('img, 'c) filesystem
    \<Rightarrow> int \<Rightarrow> error + 'img \<times> 'f target" where
  "getitem T self fs idx =
     and_then (list_getitem (jpg_paths self) idx) (\<lambda>image_path.
     and_then (list_getitem (csv_paths self) idx) (\<lambda>target_path.
     and_then (Image_open_RGB fs image_path) (\<lambda>img.
     and_then (csv_to_df fs target_path) (\<lambda>target_df.
     let num_objs = df_len target_df in
     and_then (if bird_only self then Inr (replicate num_objs 1)
               else and_then (col_values target_df ''class_id'')
                      (\<lambda>vals. Inr (map (to_int64 T) vals))) (\<lambda>labels'.
     and_then (boxes_loop target_df [0..<num_objs] []) (\<lambda>boxes_list.
     let boxes' = as_tensor (to_float32 T) boxes_list in
     and_then (column_slice boxes' 3) (\<lambda>b3.
     and_then (column_slice boxes' 1) (\<lambda>b1.
     and_then (column_slice boxes' 2) (\<lambda>b2.
     and_then (column_slice boxes' 0) (\<lambda>b0.
     let area' = tensor_mul (tensor_sub b3 b1) (tensor_sub b2 b0);
         iscrowd' = replicate num_objs 0;
         target = \<lparr>boxes = boxes', labels = labels', image_id = [idx], area = area',
                   iscrowd = iscrowd'\<rparr>
     in Inr (case transform self of None \<Rightarrow> (img, target)
             | Some f \<Rightarrow> f (img, target))))))))))))"

text \<open>
  The pair that \<^verbatim>\<open>__getitem__\<close> has built when it reaches the transform step: what
  the method returns for the same dataset with no transform.
\<close>

definition constructed :: "('c, 'f::{minus,times}) torch \<Rightarrow> ('img, 'f) dataset
    \<Rightarrow> ('img, 'c) filesystem \<Rightarrow> int \<Rightarrow> error + 'img \<times> 'f target" where
  "constructed T self fs idx = getitem T (self\<lparr>transform := None\<rparr>) fs idx"

section \<open>The optimizer factory (src/optimizers/sgd.py)\<close>

text \<open>
  A model parameter is a tensor with a \<^verbatim>\<open>requires_grad\<close> flag; \<^verbatim>\<open>model.parameters()\<close>
  yields the parameters in a fixed order.
\<close>

record 't parameter =
  data :: 't
  requires_grad :: bool

record 't module =
  parameters :: "'t parameter list"

record 't sgd =
  sgd_params :: "'t parameter list"
  sgd_lr :: real
  sgd_momentum :: real
  sgd_weight_decay :: real

text \<open>
  The constructor \<^verbatim>\<open>torch.optim.SGD(params, lr=, momentum=, weight_decay=)\<close> of the
  library: it raises ValueError on a negative hyperparameter and on an empty parameter
  list, and stores its arguments otherwise.
\<close>

definition torch_optim_SGD :: "'t parameter list \<Rightarrow> real \<Rightarrow> real \<Rightarrow> real \<Rightarrow> error + 't sgd" where
  "torch_optim_SGD params lr momentum weight_decay =
     (if lr < 0 then Inl ValueError
      else if momentum < 0 then Inl ValueError
      else if weight_decay < 0 then Inl ValueError
      else if params = [] then Inl ValueError
      else Inr \<lparr>sgd_params = params, sgd_lr = lr, sgd_momentum = momentum,
                sgd_weight_decay = weight_decay\<rparr>)"

definition get_sgd_optim :: "'t module \<Rightarrow> real \<Rightarrow> real \<Rightarrow> real \<Rightarrow> error + 't sgd" where
  "get_sgd_optim model lr momentum weight_decay =
     (let params = [param. param \<leftarrow> parameters model, requires_grad param];
          optimizer = torch_optim_SGD params lr momentum weight_decay
      in optimizer)"

section \<open>Example inputs\<close>

text \<open>
  Concrete inputs on which the theorems below are instantiated. Cells are integers, the
  float32 cast is the embedding of the integers into the reals.
\<close>

definition example_torch :: "(int, real) torch" where
  "example_torch = \<lparr>to_float32 = of_int, to_int64 = id\<rparr>"

definition table_a :: "int dataframe" where
  "table_a = \<lparr>df_len = 2,
     df_col = [''xmin'' \<mapsto> nth [10, 40], ''ymin'' \<mapsto> nth [20, 50],
               ''xmax'' \<mapsto> nth [30, 45], ''ymax'' \<mapsto> nth [60, 58],
               ''class_id'' \<mapsto> nth [3, 7]]\<rparr>"

text \<open>The same boxes with other class ids.\<close>

definition table_a' :: "int dataframe" where
  "table_a' = \<lparr>df_len = 2,
     df_col = [''xmin'' \<mapsto> nth [10, 40], ''ymin'' \<mapsto> nth [20, 50],
               ''xmax'' \<mapsto> nth [30, 45], ''ymax'' \<mapsto> nth [60, 58],
               ''class_id'' \<mapsto> nth [5, 5]]\<rparr>"

text \<open>A table with the five columns and no row.\<close>

definition table_empty :: "int dataframe" where
  "table_empty = \<lparr>df_len = 0,
     df_col = [''xmin'' \<mapsto> nth [], ''ymin'' \<mapsto> nth [], ''xmax'' \<mapsto> nth [],
               ''ymax'' \<mapsto> nth [], ''class_id'' \<mapsto> nth []]\<rparr>"

text \<open>
  Images \<open>a\<close>, \<open>b\<close>, \<open>d\<close> and tables \<open>a\<close>, \<open>b\<close>, \<open>c\<close> exist; image \<open>c\<close>, image \<open>e\<close> and
  table \<open>d\<close> do not.
\<close>

definition example_fs :: "(string, int) filesystem" where
  "example_fs = \<lparr>
     image_files = [''a.jpg'' \<mapsto> ''image a'', ''b.jpg'' \<mapsto> ''image b'',
                    ''d.jpg'' \<mapsto> ''image d''],
     csv_files = [''a.csv'' \<mapsto> table_a, ''b.csv'' \<mapsto> table_empty, ''c.csv'' \<mapsto> table_a]\<rparr>"

definition example_fs' :: "(string, int) filesystem" where
  "example_fs' = example_fs\<lparr>csv_files := (csv_files example_fs)(''a.csv'' \<mapsto> table_a')\<rparr>"

text \<open>Five image paths and four annotation paths, no transform, bird-only mode.\<close>

definition example_ds :: "(string, real) dataset" where
  "example_ds = init [''a.jpg'', ''b.jpg'', ''c.jpg'', ''d.jpg'', ''e.jpg'']
                     [''a.csv'', ''b.csv'', ''c.csv'', ''d.csv''] None True"

text \<open>The target that \<^verbatim>\<open>__getitem__\<close> builds for index 0 of the example dataset.\<close>

definition target_a :: "real target" where
  "target_a = \<lparr>boxes = Tensor2 [[10, 20, 30, 60], [40, 50, 45, 58]], labels = [1, 1],
     image_id = [0], area = [800, 40], iscrowd = [0, 0]\<rparr>"

text \<open>A transform that crops every box away, and one that makes the labels zero-based.\<close>

definition crop_all :: "'img \<times> 'f target \<Rightarrow> 'img \<times> 'f target" where
  "crop_all p = (fst p, (snd p)\<lparr>boxes := Tensor1 [], labels := [], area := [], iscrowd := []\<rparr>)"

definition zero_based :: "'img \<times> 'f target \<Rightarrow> 'img \<times> 'f target" where
  "zero_based p = (fst p, (snd p)\<lparr>labels := map (\<lambda>l. l - 1) (labels (snd p))\<rparr>)"

text \<open>A model with one frozen parameter between two trainable ones.\<close>

definition example_model :: "nat module" where
  "example_model = \<lparr>parameters =
     [\<lparr>data = 0, requires_grad = True\<rparr>, \<lparr>data = 1, requires_grad = False\<rparr>,
      \<lparr>data = 2, requires_grad = True\<rparr>]\<rparr>"

section \<open>Properties\<close>

lemma and_then_Inr_iff:
  "and_then m k = Inr r \<longleftrightarrow> (\<exists>v. m = Inr v \<and> k v = Inr r)"
  by (cases m) (simp_all add: and_then_def)

lemma and_then_Inl [simp]: "and_then (Inl e) k = Inl e"
  by (simp add: and_then_def)

lemma and_then_Inr [simp]: "and_then (Inr v) k = k v"
  by (simp add: and_then_def)

lemma boxes_loop_columns:
  "boxes_loop df idxs acc = Inr bs \<Longrightarrow> idxs \<noteq> [] \<Longrightarrow>
     \<exists>fx fy fX fY. df_col df ''xmin'' = Some fx \<and> df_col df ''ymin'' = Some fy \<and>
        df_col df ''xmax'' = Some fX \<and> df_col df ''ymax'' = Some fY"
  by (cases idxs) (auto simp: iloc_def and_then_Inr_iff split: if_splits option.splits)

lemma boxes_loop_rows:
  assumes "df_col df ''xmin'' = Some fx" "df_col df ''ymin'' = Some fy"
    "df_col df ''xmax'' = Some fX" "df_col df ''ymax'' = Some fY"
  shows "list_all (\<lambda>r. r < df_len df) idxs \<Longrightarrow>
     boxes_loop df idxs acc = Inr (acc @ map (\<lambda>r. [fx r, fy r, fX r, fY r]) idxs)"
  using assms by (induction idxs arbitrary: acc) (simp_all add: iloc_def)

lemma list_all_upt: "list_all (\<lambda>r. r < n) [0..<n]"
  by (simp add: list_all_iff)

lemma column_slice_boxes:
  "k < 4 \<Longrightarrow> column_slice (Tensor2 (map (\<lambda>r. [a r, b r, c r, d r]) idxs)) k
     = Inr (map (\<lambda>r. [a r, b r, c r, d r] ! k) idxs)"
  by (simp add: list_all_iff)

lemma map2_same: "map2 h (map f xs) (map g xs) = map (\<lambda>x. h (f x) (g x)) xs"
  by (induction xs) simp_all

lemma tensor_sub_map: "tensor_sub (map f xs) (map g xs) = map (\<lambda>x. f x - g x) xs"
  by (simp add: tensor_sub_def map2_same)

lemma tensor_mul_map: "tensor_mul (map f xs) (map g xs) = map (\<lambda>x. f x * g x) xs"
  by (simp add: tensor_mul_def map2_same)

lemma getitem_built:
  assumes "getitem T ds fs idx = Inr (img, tgt)" "transform ds = None"
  shows "\<exists>ip tp df fx fy fX fY.
      list_getitem (jpg_paths ds) idx = Inr ip \<and> list_getitem (csv_paths ds) idx = Inr tp \<and>
      image_files fs ip = Some img \<and> csv_files fs tp = Some df \<and> 0 < df_len df \<and>
      df_col df ''xmin'' = Some fx \<and> df_col df ''ymin'' = Some fy \<and>
      df_col df ''xmax'' = Some fX \<and> df_col df ''ymax'' = Some fY \<and>
      boxes tgt = Tensor2 (map (\<lambda>r. [to_float32 T (fx r), to_float32 T (fy r),
                                       to_float32 T (fX r), to_float32 T (fY r)]) [0..<df_len df]) \<and>
      (bird_only ds \<longrightarrow> labels tgt = replicate (df_len df) 1) \<and>
      (\<not> bird_only ds \<longrightarrow> (\<exists>fc. df_col df ''class_id'' = Some fc \<and>
           labels tgt = map (\<lambda>r. to_int64 T (fc r)) [0..<df_len df])) \<and>
      image_id tgt = [idx] \<and>
      area tgt = map (\<lambda>r. (to_float32 T (fY r) - to_float32 T (fy r)) *
                          (to_float32 T (fX r) - to_float32 T (fx r))) [0..<df_len df] \<and>
      iscrowd tgt = replicate (df_len df) 0"
proof -
  from assms(1) obtain ip tp im df lbs bl where
    ip: "list_getitem (jpg_paths ds) idx = Inr ip" and
    tp: "list_getitem (csv_paths ds) idx = Inr tp" and
    im: "Image_open_RGB fs ip = Inr im" and
    df: "csv_to_df fs tp = Inr df" and
    lbs: "(if bird_only ds then Inr (replicate (df_len df) 1)
           else and_then (col_values df ''class_id'') (\<lambda>vals. Inr (map (to_int64 T) vals))) = Inr lbs" and
    bl: "boxes_loop df [0..<df_len df] [] = Inr bl" and
    rest: "and_then (column_slice (as_tensor (to_float32 T) bl) 3) (\<lambda>b3.
     and_then (column_slice (as_tensor (to_float32 T) bl) 1) (\<lambda>b1.
     and_then (column_slice (as_tensor (to_float32 T) bl) 2) (\<lambda>b2.
     and_then (column_slice (as_tensor (to_float32 T) bl) 0) (\<lambda>b0.
       Inr (case transform ds of None \<Rightarrow> (im, \<lparr>boxes = as_tensor (to_float32 T) bl, labels = lbs, image_id = [idx],
          area = tensor_mul (tensor_sub b3 b1) (tensor_sub b2 b0), iscrowd = replicate (df_len df) 0\<rparr>)
         | Some f \<Rightarrow> f (im, \<lparr>boxes = as_tensor (to_float32 T) bl, labels = lbs, image_id = [idx],
          area = tensor_mul (tensor_sub b3 b1) (tensor_sub b2 b0), iscrowd = replicate (df_len df) 0\<rparr>)))))) = Inr (img, tgt)"
    unfolding getitem_def and_then_Inr_iff Let_def by blast
  have pos: "0 < df_len df"
  proof (rule ccontr)
    assume "\<not> 0 < df_len df"
    with bl have "bl = []" by simp
    with rest show False by (simp add: as_tensor_def)
  qed
  then have ne: "[0..<df_len df] \<noteq> []" by simp
  from boxes_loop_columns[OF bl ne] obtain fx fy fX fY where
    cols: "df_col df ''xmin'' = Some fx" "df_col df ''ymin'' = Some fy"
          "df_col df ''xmax'' = Some fX" "df_col df ''ymax'' = Some fY" by blast
  from boxes_loop_rows[OF cols list_all_upt, of "[]"] bl
  have bl_eq: "bl = map (\<lambda>r. [fx r, fy r, fX r, fY r]) [0..<df_len df]" by simp
  have at: "as_tensor (to_float32 T) bl = Tensor2 (map (\<lambda>r. [to_float32 T (fx r), to_float32 T (fy r),
                                       to_float32 T (fX r), to_float32 T (fY r)]) [0..<df_len df])"
    using ne by (simp add: as_tensor_def bl_eq comp_def)
  from rest have tgt: "img = im" "tgt = \<lparr>boxes = as_tensor (to_float32 T) bl, labels = lbs, image_id = [idx],
          area = map (\<lambda>r. (to_float32 T (fY r) - to_float32 T (fy r)) *
                          (to_float32 T (fX r) - to_float32 T (fx r))) [0..<df_len df], iscrowd = replicate (df_len df) 0\<rparr>"
    unfolding at using assms(2)
    by (simp_all add: column_slice_boxes tensor_sub_map tensor_mul_map del: column_slice.simps)
  from lbs have l1: "bird_only ds \<Longrightarrow> lbs = replicate (df_len df) 1" by simp
  from lbs have l2: "\<not> bird_only ds \<Longrightarrow> \<exists>fc. df_col df ''class_id'' = Some fc \<and>
           lbs = map (\<lambda>r. to_int64 T (fc r)) [0..<df_len df]"
    by (auto simp: col_values_def comp_def split: option.splits)
  from im have im': "image_files fs ip = Some im"
    by (simp add: Image_open_RGB_def split: option.splits)
  from df have df': "csv_files fs tp = Some df"
    by (simp add: csv_to_df_def split: option.splits)
  show ?thesis
    using ip tp im' df' pos cols l1 l2 by (simp add: tgt at)
qed

lemma comprehension_filter:
  "[x. x \<leftarrow> xs, P x] = filter P xs"
  by (induction xs) simp_all

lemma list_getitem_out_of_range:
  "\<not> index_in_range xs i \<Longrightarrow> list_getitem xs i = Inl IndexError"
  by (auto simp: index_in_range_def list_getitem_def)

lemma list_getitem_in_range:
  "index_in_range xs i \<Longrightarrow> \<exists>x. list_getitem xs i = Inr x"
  by (auto simp: index_in_range_def list_getitem_def)

lemma map_sum_and_then:
  "map_sum id g (and_then m k) = and_then m (\<lambda>v. map_sum id g (k v))"
  by (cases m) simp_all

lemma getitem_transform:
  "getitem T ds fs idx =
     map_sum id (case transform ds of None \<Rightarrow> id | Some f \<Rightarrow> f) (constructed T ds fs idx)"
  by (simp add: getitem_def constructed_def map_sum_and_then Let_def split: option.splits)

lemma constructed_target:
  assumes "constructed T ds fs idx = Inr (img, tgt)"
    and "list_getitem (csv_paths ds) idx = Inr target_path"
    and "csv_to_df fs target_path = Inr target_df"
  shows "\<exists>fx fy fX fY. 0 < df_len target_df \<and>
      df_col target_df ''xmin'' = Some fx \<and> df_col target_df ''ymin'' = Some fy \<and>
      df_col target_df ''xmax'' = Some fX \<and> df_col target_df ''ymax'' = Some fY \<and>
      boxes tgt = Tensor2 (map (\<lambda>r. [to_float32 T (fx r), to_float32 T (fy r),
                                       to_float32 T (fX r), to_float32 T (fY r)])
                             [0..<df_len target_df]) \<and>
      (bird_only ds \<longrightarrow> labels tgt = replicate (df_len target_df) 1) \<and>
      (\<not> bird_only ds \<longrightarrow> (\<exists>fc. df_col target_df ''class_id'' = Some fc \<and>
           labels tgt = map (\<lambda>r. to_int64 T (fc r)) [0..<df_len target_df])) \<and>
      image_id tgt = [idx] \<and>
      area tgt = map (\<lambda>r. (to_float32 T (fY r) - to_float32 T (fy r)) *
                          (to_float32 T (fX r) - to_float32 T (fx r))) [0..<df_len target_df] \<and>
      iscrowd tgt = replicate (df_len target_df) 0"
proof -
  from assms(3) have csv: "csv_files fs target_path = Some target_df"
    by (simp add: csv_to_df_def split: option.splits)
  from assms(1) have run: "getitem T (ds\<lparr>transform := None\<rparr>) fs idx = Inr (img, tgt)"
    by (simp add: constructed_def)
  have none: "transform (ds\<lparr>transform := None\<rparr>) = None"
    by simp
  from getitem_built [OF run none] obtain tp df fx fy fX fY where
    tp: "list_getitem (csv_paths ds) idx = Inr tp" and
    df: "csv_files fs tp = Some df" and
    rest: "0 < df_len df \<and>
      df_col df ''xmin'' = Some fx \<and> df_col df ''ymin'' = Some fy \<and>
      df_col df ''xmax'' = Some fX \<and> df_col df ''ymax'' = Some fY \<and>
      boxes tgt = Tensor2 (map (\<lambda>r. [to_float32 T (fx r), to_float32 T (fy r),
                                       to_float32 T (fX r), to_float32 T (fY r)])
                             [0..<df_len df]) \<and>
      (bird_only ds \<longrightarrow> labels tgt = replicate (df_len df) 1) \<and>
      (\<not> bird_only ds \<longrightarrow> (\<exists>fc. df_col df ''class_id'' = Some fc \<and>
           labels tgt = map (\<lambda>r. to_int64 T (fc r)) [0..<df_len df])) \<and>
      image_id tgt = [idx] \<and>
      area tgt = map (\<lambda>r. (to_float32 T (fY r) - to_float32 T (fy r)) *
                          (to_float32 T (fX r) - to_float32 T (fx r))) [0..<df_len df] \<and>
      iscrowd tgt = replicate (df_len df) 0"
    by simp blast
  from tp assms(2) have "tp = target_path" by simp
  with df csv have "df = target_df" by simp
  with rest show ?thesis
    by (rule_tac x = fx in exI, rule_tac x = fy in exI, rule_tac x = fX in exI,
        rule_tac x = fY in exI) simp
qed

lemma constructed_returned:
  "constructed T ds fs idx = Inr p \<Longrightarrow> transform ds = None \<Longrightarrow> getitem T ds fs idx = Inr p"
  by (simp add: getitem_transform)

lemma constructed_rows:
  assumes "constructed T ds fs idx = Inr r"
  shows "\<exists>tp df. list_getitem (csv_paths ds) idx = Inr tp \<and> csv_to_df fs tp = Inr df \<and>
           0 < df_len df"
proof -
  obtain img tgt where r: "r = (img, tgt)" by (cases r)
  from getitem_built [of T "ds\<lparr>transform := None\<rparr>" fs idx img tgt] assms r
  show ?thesis by (auto simp: constructed_def csv_to_df_def)
qed

lemma getitem_rows:
  assumes "getitem T ds fs idx = Inr r"
  shows "\<exists>tp df. list_getitem (csv_paths ds) idx = Inr tp \<and> csv_to_df fs tp = Inr df \<and>
           0 < df_len df"
proof -
  from assms obtain r' where "constructed T ds fs idx = Inr r'"
    by (cases "constructed T ds fs idx") (simp_all add: getitem_transform)
  then show ?thesis by (rule constructed_rows)
qed

lemma constructed_ignores_transform:
  "constructed T (ds\<lparr>transform := t\<rparr>) fs idx = constructed T ds fs idx"
  by (simp add: constructed_def)






subsection \<open>The example inputs, evaluated\<close>

lemma example_paths:
  "jpg_paths example_ds = [''a.jpg'', ''b.jpg'', ''c.jpg'', ''d.jpg'', ''e.jpg'']"
  "csv_paths example_ds = [''a.csv'', ''b.csv'', ''c.csv'', ''d.csv'']"
  "transform example_ds = None" "bird_only example_ds"
  by (simp_all add: example_ds_def init_def)

lemma example_files:
  "image_files example_fs ''a.jpg'' = Some ''image a''"
  "image_files example_fs ''b.jpg'' = Some ''image b''"
  "image_files example_fs ''c.jpg'' = None"
  "image_files example_fs ''d.jpg'' = Some ''image d''"
  "image_files example_fs ''e.jpg'' = None"
  "csv_files example_fs ''a.csv'' = Some table_a"
  "csv_files example_fs ''b.csv'' = Some table_empty"
  "csv_files example_fs ''c.csv'' = Some table_a"
  "csv_files example_fs ''d.csv'' = None"
  by (simp_all add: example_fs_def)

lemma example_files':
  "image_files example_fs' ''a.jpg'' = Some ''image a''"
  "csv_files example_fs' ''a.csv'' = Some table_a'"
  by (simp_all add: example_fs'_def example_fs_def)

lemma table_a_cells:
  "df_len table_a = 2"
  "iloc table_a 0 ''xmin'' = Inr 10" "iloc table_a 0 ''ymin'' = Inr 20"
  "iloc table_a 0 ''xmax'' = Inr 30" "iloc table_a 0 ''ymax'' = Inr 60"
  "iloc table_a (Suc 0) ''xmin'' = Inr 40" "iloc table_a (Suc 0) ''ymin'' = Inr 50"
  "iloc table_a (Suc 0) ''xmax'' = Inr 45" "iloc table_a (Suc 0) ''ymax'' = Inr 58"
  by (simp_all add: table_a_def iloc_def)

lemma table_a_boxes:
  "boxes_loop table_a [0..<df_len table_a] [] = Inr [[10, 20, 30, 60], [40, 50, 45, 58]]"
proof -
  have "[0..<df_len table_a] = [0, 1]"
    by (simp add: table_a_cells upt_rec)
  then show ?thesis
    by (simp add: table_a_cells)
qed

lemma table_a'_cells:
  "df_len table_a' = 2"
  "iloc table_a' 0 ''xmin'' = Inr 10" "iloc table_a' 0 ''ymin'' = Inr 20"
  "iloc table_a' 0 ''xmax'' = Inr 30" "iloc table_a' 0 ''ymax'' = Inr 60"
  "iloc table_a' (Suc 0) ''xmin'' = Inr 40" "iloc table_a' (Suc 0) ''ymin'' = Inr 50"
  "iloc table_a' (Suc 0) ''xmax'' = Inr 45" "iloc table_a' (Suc 0) ''ymax'' = Inr 58"
  by (simp_all add: table_a'_def iloc_def)

lemma table_a'_boxes:
  "boxes_loop table_a' [0..<df_len table_a'] [] = Inr [[10, 20, 30, 60], [40, 50, 45, 58]]"
proof -
  have "[0..<df_len table_a'] = [0, 1]"
    by (simp add: table_a'_cells upt_rec)
  then show ?thesis
    by (simp add: table_a'_cells)
qed

lemma example_item_a:
  "constructed example_torch example_ds example_fs 0 =
     Inr (''image a'', \<lparr>boxes = Tensor2 [[10, 20, 30, 60], [40, 50, 45, 58]], labels = [1, 1],
            image_id = [0], area = [800, 40], iscrowd = [0, 0]\<rparr>)"
  by (simp add: constructed_def getitem_def example_paths list_getitem_def example_files
      Image_open_RGB_def csv_to_df_def table_a_boxes as_tensor_def tensor_sub_def tensor_mul_def
      example_torch_def table_a_cells eval_nat_numeral)

lemma example_item_a_target: "constructed example_torch example_ds example_fs 0 = Inr (''image a'', target_a)"
  by (simp add: example_item_a target_a_def)

lemma example_item_a':
  "constructed example_torch example_ds example_fs' 0 = Inr (''image a'', target_a)"
  by (simp add: constructed_def getitem_def example_paths list_getitem_def example_files'
      Image_open_RGB_def csv_to_df_def table_a'_boxes as_tensor_def tensor_sub_def tensor_mul_def
      example_torch_def table_a'_cells eval_nat_numeral target_a_def)

lemma example_lookup_a:
  "list_getitem (csv_paths example_ds) 0 = Inr ''a.csv''"
  "csv_to_df example_fs ''a.csv'' = Inr table_a"
  "csv_to_df example_fs' ''a.csv'' = Inr table_a'"
  by (simp_all add: example_paths list_getitem_def csv_to_df_def example_files example_files')

subsection \<open>The target built by the dataset\<close>

text \<open>
  C1 (as amended): when \<^verbatim>\<open>__getitem__\<close> reaches its transform step on an annotation
  table with \<open>N\<close> rows, the target it has built has a label vector of length \<open>N\<close> and
  a box array of \<open>N\<close> rows of four elements; this target is the one returned when no
  transform was supplied. Both modes (bird-only and multi-species) are covered.
\<close>

theorem constructed_lengths:
  assumes "constructed T ds fs idx = Inr (img, tgt)"
    and "list_getitem (csv_paths ds) idx = Inr target_path"
    and "csv_to_df fs target_path = Inr target_df"
  shows "length (labels tgt) = df_len target_df \<and>
     (\<exists>rows. boxes tgt = Tensor2 rows \<and> length rows = df_len target_df \<and>
        list_all (\<lambda>box. length box = 4) rows) \<and>
     (transform ds = None \<longrightarrow> getitem T ds fs idx = Inr (img, tgt))"
proof -
  from constructed_target [OF assms] obtain fx fy fX fY where
    b: "boxes tgt = Tensor2 (map (\<lambda>r. [to_float32 T (fx r), to_float32 T (fy r),
          to_float32 T (fX r), to_float32 T (fY r)]) [0..<df_len target_df])" and
    l1: "bird_only ds \<longrightarrow> labels tgt = replicate (df_len target_df) 1" and
    l2: "\<not> bird_only ds \<longrightarrow> (\<exists>fc. df_col target_df ''class_id'' = Some fc \<and>
           labels tgt = map (\<lambda>r. to_int64 T (fc r)) [0..<df_len target_df])"
    by blast
  from l1 l2 have "length (labels tgt) = df_len target_df"
    by (cases "bird_only ds") auto
  moreover from b have "\<exists>rows. boxes tgt = Tensor2 rows \<and> length rows = df_len target_df \<and>
        list_all (\<lambda>box. length box = 4) rows"
    by (simp add: list_all_iff)
  ultimately show ?thesis
    using constructed_returned [OF assms(1)] by simp
qed

text \<open>
  C1, witness: index 0 of the example dataset, a table of two rows, no transform.
\<close>

theorem constructed_lengths_witness:
  "getitem example_torch example_ds example_fs 0 = Inr (''image a'', target_a) \<and>
   df_len table_a = 2 \<and> length (labels target_a) = 2 \<and>
   boxes target_a = Tensor2 [[10, 20, 30, 60], [40, 50, 45, 58]]"
  using constructed_lengths [OF example_item_a_target example_lookup_a(1,2)]
  by (simp add: example_paths table_a_cells target_a_def)

text \<open>
  C1, counterexample to the claim as stated: with a transform that crops every box away,
  the table has two rows and the returned target has no label and no box.
\<close>

theorem returned_lengths_counterexample:
  "list_getitem (csv_paths (example_ds\<lparr>transform := Some crop_all\<rparr>)) 0 = Inr ''a.csv'' \<and>
   csv_to_df example_fs ''a.csv'' = Inr table_a \<and> df_len table_a = 2 \<and>
   getitem example_torch (example_ds\<lparr>transform := Some crop_all\<rparr>) example_fs 0 =
     Inr (''image a'', \<lparr>boxes = Tensor1 [], labels = [], image_id = [0], area = [],
                         iscrowd = []\<rparr>)"
  by (simp add: getitem_transform constructed_ignores_transform example_item_a example_lookup_a
      table_a_cells crop_all_def)



text \<open>
  C3 (as amended): in bird-only mode the label vector that \<^verbatim>\<open>__getitem__\<close> builds, which
  it returns when no transform was supplied, is \<open>N\<close> times the class id 1; for two
  annotation tables with the same number of rows at the same path, whatever their cells,
  the label vectors built are equal.
\<close>

theorem bird_only_labels:
  assumes "bird_only ds"
    and "constructed T ds fs idx = Inr (img, tgt)"
    and "list_getitem (csv_paths ds) idx = Inr target_path"
    and "csv_to_df fs target_path = Inr target_df"
  shows "labels tgt = replicate (df_len target_df) 1 \<and> list_all (\<lambda>l. l = 1) (labels tgt) \<and>
     (transform ds = None \<longrightarrow> getitem T ds fs idx = Inr (img, tgt)) \<and>
     (constructed T ds fs' idx = Inr (img', tgt') \<and>
      csv_to_df fs' target_path = Inr target_df' \<and> df_len target_df' = df_len target_df \<longrightarrow>
        labels tgt' = labels tgt)"
proof -
  from constructed_target [OF assms(2-4)] assms(1)
  have l: "labels tgt = replicate (df_len target_df) 1"
    by blast
  have "labels tgt' = labels tgt"
    if "constructed T ds fs' idx = Inr (img', tgt')"
      "csv_to_df fs' target_path = Inr target_df'" "df_len target_df' = df_len target_df"
  proof -
    from constructed_target [OF that(1) assms(3) that(2)] assms(1)
    have "labels tgt' = replicate (df_len target_df') 1"
      by blast
    with l that(3) show ?thesis by simp
  qed
  with l constructed_returned [OF assms(2)] show ?thesis
    by (simp add: list_all_iff)
qed

text \<open>
  C3, witness: the example table and its copy with other class ids give the same labels
  \<open>[1, 1]\<close>.
\<close>

theorem bird_only_labels_witness:
  "bird_only example_ds \<and> labels target_a = [1, 1] \<and>
   getitem example_torch example_ds example_fs 0 = Inr (''image a'', target_a) \<and>
   col_values table_a ''class_id'' = Inr [3, 7] \<and>
   col_values table_a' ''class_id'' = Inr [5, 5] \<and>
   constructed example_torch example_ds example_fs' 0 = Inr (''image a'', target_a)"
proof -
  have cols: "col_values table_a ''class_id'' = Inr [3, 7]"
    "col_values table_a' ''class_id'' = Inr [5, 5]"
    by (simp_all add: col_values_def table_a_def table_a'_def upt_rec)
  from bird_only_labels [OF example_paths(4) example_item_a_target example_lookup_a(1,2),
      where fs' = example_fs' and img' = "''image a''" and tgt' = target_a
      and target_df' = table_a']
  show ?thesis
    by (simp add: example_paths example_item_a' cols target_a_def)
qed

text \<open>
  C3, counterexample to the claim as stated: in bird-only mode, a transform that makes
  the labels zero-based returns the labels \<open>[0, 0]\<close>.
\<close>

theorem bird_only_labels_counterexample:
  "bird_only (example_ds\<lparr>transform := Some zero_based\<rparr>) \<and>
   getitem example_torch (example_ds\<lparr>transform := Some zero_based\<rparr>) example_fs 0 =
     Inr (''image a'', \<lparr>boxes = Tensor2 [[10, 20, 30, 60], [40, 50, 45, 58]], labels = [0, 0],
                         image_id = [0], area = [800, 40], iscrowd = [0, 0]\<rparr>)"
  by (simp add: getitem_transform constructed_ignores_transform example_item_a example_paths
      zero_based_def)



subsection \<open>Failures\<close>

text \<open>
  C5: \<^verbatim>\<open>__getitem__\<close> raises IndexError when the index is out of range of the image
  paths or of the annotation paths; with the index in range it raises FileNotFoundError
  when the image file or the annotation file is missing. Whatever error opening the
  image or loading the table raises is the error of \<^verbatim>\<open>__getitem__\<close>: none is caught.
\<close>

theorem getitem_propagates_failures:
  "(\<not> index_in_range (jpg_paths ds) idx \<or> \<not> index_in_range (csv_paths ds) idx \<longrightarrow>
      getitem T ds fs idx = Inl IndexError) \<and>
   (list_getitem (jpg_paths ds) idx = Inr image_path \<and>
    list_getitem (csv_paths ds) idx = Inr target_path \<longrightarrow>
      (image_files fs image_path = None \<or> csv_files fs target_path = None \<longrightarrow>
         getitem T ds fs idx = Inl FileNotFoundError) \<and>
      (Image_open_RGB fs image_path = Inl e \<longrightarrow> getitem T ds fs idx = Inl e) \<and>
      (Image_open_RGB fs image_path = Inr img \<and> csv_to_df fs target_path = Inl e \<longrightarrow>
         getitem T ds fs idx = Inl e))"
proof -
  have range: "getitem T ds fs idx = Inl IndexError"
    if "\<not> index_in_range (jpg_paths ds) idx \<or> \<not> index_in_range (csv_paths ds) idx"
  proof (cases "index_in_range (jpg_paths ds) idx")
    case False
    then show ?thesis by (simp add: getitem_def list_getitem_out_of_range)
  next
    case True
    with that have "list_getitem (csv_paths ds) idx = Inl IndexError"
      by (simp add: list_getitem_out_of_range)
    moreover from True obtain p where "list_getitem (jpg_paths ds) idx = Inr p"
      using list_getitem_in_range by blast
    ultimately show ?thesis by (simp add: getitem_def)
  qed
  have files: "getitem T ds fs idx = Inl FileNotFoundError"
    if "list_getitem (jpg_paths ds) idx = Inr image_path"
       "list_getitem (csv_paths ds) idx = Inr target_path"
       "image_files fs image_path = None \<or> csv_files fs target_path = None"
    using that
    by (cases "image_files fs image_path")
       (auto simp: getitem_def Image_open_RGB_def csv_to_df_def)
  have img_err: "getitem T ds fs idx = Inl e"
    if "list_getitem (jpg_paths ds) idx = Inr image_path"
       "list_getitem (csv_paths ds) idx = Inr target_path"
       "Image_open_RGB fs image_path = Inl e"
    using that by (simp add: getitem_def)
  have csv_err: "getitem T ds fs idx = Inl e"
    if "list_getitem (jpg_paths ds) idx = Inr image_path"
       "list_getitem (csv_paths ds) idx = Inr target_path"
       "Image_open_RGB fs image_path = Inr img" "csv_to_df fs target_path = Inl e"
    using that by (simp add: getitem_def)
  from range files img_err csv_err show ?thesis by blast
qed

text \<open>
  C5, witness: indices 5 and -6 are out of range of both lists, index 4 of the
  annotation paths only; image \<open>c\<close> (index 2) and table \<open>d\<close> (index 3) are missing.
\<close>

theorem getitem_propagates_failures_witness:
  "getitem example_torch example_ds example_fs 5 = Inl IndexError \<and>
   getitem example_torch example_ds example_fs (- 6) = Inl IndexError \<and>
   getitem example_torch example_ds example_fs 4 = Inl IndexError \<and>
   image_files example_fs ''c.jpg'' = None \<and>
   getitem example_torch example_ds example_fs 2 = Inl FileNotFoundError \<and>
   image_files example_fs ''d.jpg'' = Some ''image d'' \<and> csv_files example_fs ''d.csv'' = None \<and>
   getitem example_torch example_ds example_fs 3 = Inl FileNotFoundError"
  using getitem_propagates_failures [where ds = example_ds and idx = 5 and T = example_torch
      and fs = example_fs]
    getitem_propagates_failures [where ds = example_ds and idx = "- 6" and T = example_torch
      and fs = example_fs]
    getitem_propagates_failures [where ds = example_ds and idx = 4 and T = example_torch
      and fs = example_fs]
    getitem_propagates_failures [where ds = example_ds and idx = 2 and T = example_torch
      and fs = example_fs and image_path = "''c.jpg''" and target_path = "''c.csv''"]
    getitem_propagates_failures [where ds = example_ds and idx = 3 and T = example_torch
      and fs = example_fs and image_path = "''d.jpg''" and target_path = "''d.csv''"]
  by (simp add: example_paths example_files index_in_range_def list_getitem_def)

text \<open>
  C9: when the annotation table of the index has no row, \<^verbatim>\<open>__getitem__\<close> does not
  return. In bird-only mode, when the image loads, the box list is empty, the box tensor
  is one-dimensional and the error is the IndexError of the column slice. A call that
  returns has a table with at least one row.
\<close>

theorem getitem_needs_a_row:
  "(list_getitem (csv_paths ds) idx = Inr target_path \<and>
    csv_to_df fs target_path = Inr target_df \<and> df_len target_df = 0 \<longrightarrow>
      (\<exists>e. getitem T ds fs idx = Inl e) \<and>
      (list_getitem (jpg_paths ds) idx = Inr image_path \<and>
       Image_open_RGB fs image_path = Inr img \<and> bird_only ds \<longrightarrow>
         as_tensor (to_float32 T) [] = Tensor1 [] \<and>
         boxes_loop target_df [0..<df_len target_df] [] = Inr [] \<and>
         getitem T ds fs idx = Inl IndexError)) \<and>
   (getitem T ds fs idx = Inr r \<longrightarrow>
      (\<exists>tp df. list_getitem (csv_paths ds) idx = Inr tp \<and> csv_to_df fs tp = Inr df \<and>
         1 \<le> df_len df))"
proof -
  have no_return: "\<exists>e. getitem T ds fs idx = Inl e"
    if "list_getitem (csv_paths ds) idx = Inr target_path"
       "csv_to_df fs target_path = Inr target_df" "df_len target_df = 0"
  proof (cases "getitem T ds fs idx")
    case (Inr r')
    from getitem_rows [OF Inr] that show ?thesis by auto
  qed simp
  have index_error: "getitem T ds fs idx = Inl IndexError"
    if "list_getitem (csv_paths ds) idx = Inr target_path"
       "csv_to_df fs target_path = Inr target_df" "df_len target_df = 0"
       "list_getitem (jpg_paths ds) idx = Inr image_path"
       "Image_open_RGB fs image_path = Inr img" "bird_only ds"
    using that by (simp add: getitem_def as_tensor_def)
  have rows: "\<exists>tp df. list_getitem (csv_paths ds) idx = Inr tp \<and> csv_to_df fs tp = Inr df \<and>
         1 \<le> df_len df" if "getitem T ds fs idx = Inr r"
    using getitem_rows [OF that] by (simp add: Suc_le_eq)
  from no_return index_error rows show ?thesis
    by (simp add: as_tensor_def)
qed

text \<open>
  C9, witness: index 1 of the example dataset has an empty table, index 0 a table of
  two rows.
\<close>

theorem getitem_needs_a_row_witness:
  "csv_to_df example_fs ''b.csv'' = Inr table_empty \<and> df_len table_empty = 0 \<and>
   getitem example_torch example_ds example_fs 1 = Inl IndexError \<and>
   getitem example_torch example_ds example_fs 0 = Inr (''image a'', target_a) \<and>
   df_len table_a = 2"
  using getitem_needs_a_row [where ds = example_ds and idx = 1 and T = example_torch
      and fs = example_fs and target_path = "''b.csv''" and target_df = table_empty
      and image_path = "''b.jpg''" and img = "''image b''"]
    getitem_needs_a_row [where ds = example_ds and idx = 0 and T = example_torch
      and fs = example_fs and r = "(''image a'', target_a)"]
    constructed_returned [OF example_item_a_target example_paths(3)]
  by (simp add: example_paths example_files list_getitem_def csv_to_df_def Image_open_RGB_def
      table_empty_def table_a_cells)

subsection \<open>The transform\<close>

text \<open>
  C6: without a transform \<^verbatim>\<open>__getitem__\<close> returns the pair it has built, the loaded
  image and the target, as it is; with a transform \<open>f\<close> it returns \<open>f\<close> applied to that
  pair. An error raised before the transform step is raised in both cases.
\<close>

theorem getitem_applies_transform:
  "(transform ds = None \<longrightarrow> getitem T ds fs idx = constructed T ds fs idx) \<and>
   (transform ds = Some f \<longrightarrow> getitem T ds fs idx = map_sum id f (constructed T ds fs idx)) \<and>
   (constructed T ds fs idx = Inr (img, tgt) \<longrightarrow>
      (\<exists>image_path. list_getitem (jpg_paths ds) idx = Inr image_path \<and>
                     Image_open_RGB fs image_path = Inr img) \<and>
      (transform ds = None \<longrightarrow> getitem T ds fs idx = Inr (img, tgt)) \<and>
      (transform ds = Some f \<longrightarrow> getitem T ds fs idx = Inr (f (img, tgt))))"
proof -
  have none: "getitem T ds fs idx = constructed T ds fs idx" if "transform ds = None"
    using that by (simp add: getitem_transform sum.map_id)
  have some: "getitem T ds fs idx = map_sum id f (constructed T ds fs idx)"
    if "transform ds = Some f"
    using that by (simp add: getitem_transform)
  have loaded: "\<exists>image_path. list_getitem (jpg_paths ds) idx = Inr image_path \<and>
                     Image_open_RGB fs image_path = Inr img"
    if "constructed T ds fs idx = Inr (img, tgt)"
    using getitem_built [of T "ds\<lparr>transform := None\<rparr>" fs idx img tgt] that
    by (auto simp: constructed_def Image_open_RGB_def)
  from none some loaded show ?thesis by simp
qed

text \<open>
  C6, witness: index 0 of the example dataset, without a transform and with one.
\<close>

theorem getitem_applies_transform_witness:
  "getitem example_torch example_ds example_fs 0 = Inr (''image a'', target_a) \<and>
   getitem example_torch (example_ds\<lparr>transform := Some crop_all\<rparr>) example_fs 0 =
     Inr (crop_all (''image a'', target_a)) \<and>
   Image_open_RGB example_fs ''a.jpg'' = Inr ''image a''"
  using getitem_applies_transform [where ds = example_ds and T = example_torch
      and fs = example_fs and idx = 0 and img = "''image a''" and tgt = target_a]
    getitem_applies_transform [where ds = "example_ds\<lparr>transform := Some crop_all\<rparr>"
      and T = example_torch and fs = example_fs and idx = 0 and f = crop_all
      and img = "''image a''" and tgt = target_a]
  by (simp add: example_paths example_item_a_target constructed_ignores_transform
      Image_open_RGB_def example_files)

subsection \<open>The optimizer factory\<close>

text \<open>
  C7: \<^verbatim>\<open>get_sgd_optim\<close> calls the SGD constructor on exactly the parameters of the model
  whose \<^verbatim>\<open>requires_grad\<close> flag is set, in the order in which the model yields them,
  with the learning rate, momentum and weight decay it was given. When the constructor
  returns, the optimizer holds these parameters and these three hyperparameters; it
  returns whenever the hyperparameters are not negative and one parameter is trainable.
\<close>

theorem get_sgd_optim_trainable:
  "get_sgd_optim model lr momentum weight_decay =
     torch_optim_SGD (filter requires_grad (parameters model)) lr momentum weight_decay \<and>
   (get_sgd_optim model lr momentum weight_decay = Inr optimizer \<longrightarrow>
      sgd_params optimizer = filter requires_grad (parameters model) \<and>
      set (sgd_params optimizer) = {p \<in> set (parameters model). requires_grad p} \<and>
      subseq (sgd_params optimizer) (parameters model) \<and>
      sgd_lr optimizer = lr \<and> sgd_momentum optimizer = momentum \<and>
      sgd_weight_decay optimizer = weight_decay) \<and>
   (0 \<le> lr \<and> 0 \<le> momentum \<and> 0 \<le> weight_decay \<and>
    list_ex requires_grad (parameters model) \<longrightarrow>
      (\<exists>optimizer. get_sgd_optim model lr momentum weight_decay = Inr optimizer))"
proof -
  have call: "get_sgd_optim model lr momentum weight_decay =
     torch_optim_SGD (filter requires_grad (parameters model)) lr momentum weight_decay"
    by (simp add: get_sgd_optim_def comprehension_filter)
  have ret: "sgd_params optimizer = filter requires_grad (parameters model) \<and>
      set (sgd_params optimizer) = {p \<in> set (parameters model). requires_grad p} \<and>
      subseq (sgd_params optimizer) (parameters model) \<and>
      sgd_lr optimizer = lr \<and> sgd_momentum optimizer = momentum \<and>
      sgd_weight_decay optimizer = weight_decay"
    if "get_sgd_optim model lr momentum weight_decay = Inr optimizer"
  proof -
    from that call have "optimizer = \<lparr>sgd_params = filter requires_grad (parameters model),
        sgd_lr = lr, sgd_momentum = momentum, sgd_weight_decay = weight_decay\<rparr>"
      by (simp add: torch_optim_SGD_def split: if_splits)
    then show ?thesis by simp
  qed
  have ok: "\<exists>optimizer. get_sgd_optim model lr momentum weight_decay = Inr optimizer"
    if "0 \<le> lr \<and> 0 \<le> momentum \<and> 0 \<le> weight_decay \<and> list_ex requires_grad (parameters model)"
  proof -
    from that have "filter requires_grad (parameters model) \<noteq> []"
      by (simp add: list_ex_iff filter_empty_conv)
    with that show ?thesis
      unfolding call by (simp add: torch_optim_SGD_def)
  qed
  from call ret ok show ?thesis by blast
qed

text \<open>
  C7, witness: the example model, with the learning rate of the configuration and the
  default momentum and weight decay.
\<close>

theorem get_sgd_optim_trainable_witness:
  "get_sgd_optim example_model 0.002 0.9 0.0005 =
     Inr \<lparr>sgd_params = [\<lparr>data = 0, requires_grad = True\<rparr>, \<lparr>data = 2, requires_grad = True\<rparr>],
          sgd_lr = 0.002, sgd_momentum = 0.9, sgd_weight_decay = 0.0005\<rparr> \<and>
   subseq [\<lparr>data = 0, requires_grad = True\<rparr>, \<lparr>data = 2::nat, requires_grad = True\<rparr>]
     (parameters example_model)"
proof -
  have run: "get_sgd_optim example_model 0.002 0.9 0.0005 =
     Inr \<lparr>sgd_params = [\<lparr>data = 0, requires_grad = True\<rparr>, \<lparr>data = 2, requires_grad = True\<rparr>],
          sgd_lr = 0.002, sgd_momentum = 0.9, sgd_weight_decay = 0.0005\<rparr>"
    by (simp add: get_sgd_optim_def torch_optim_SGD_def example_model_def)
  from get_sgd_optim_trainable [of example_model "0.002" "0.9" "0.0005"
      "\<lparr>sgd_params = [\<lparr>data = 0, requires_grad = True\<rparr>, \<lparr>data = 2, requires_grad = True\<rparr>],
          sgd_lr = 0.002, sgd_momentum = 0.9, sgd_weight_decay = 0.0005\<rparr>"] run
  show ?thesis by simp
qed

subsection \<open>Length of the dataset\<close>

text \<open>
  C10: \<^verbatim>\<open>__len__\<close> is the length of the image-path list, whatever the annotation-path
  list is; the constructor stores both lists as given. When there are fewer annotation
  paths than image paths, the index \<open>length csv\<close> is below the reported length and
  has no annotation path: \<^verbatim>\<open>__getitem__\<close> raises IndexError there.
\<close>

theorem len_counts_images_only:
  "len (init jpg csv tr b) = length jpg \<and>
   len (init jpg csv tr b) = len (init jpg csv' tr' b') \<and>
   jpg_paths (init jpg csv tr b) = jpg \<and> csv_paths (init jpg csv tr b) = csv \<and>
   (length csv < length jpg \<longrightarrow>
      0 \<le> int (length csv) \<and> int (length csv) < int (len (init jpg csv tr b)) \<and>
      list_getitem (csv_paths (init jpg csv tr b)) (int (length csv)) = Inl IndexError \<and>
      getitem T (init jpg csv tr b) fs (int (length csv)) = Inl IndexError)"
proof -
  have "getitem T (init jpg csv tr b) fs (int (length csv)) = Inl IndexError"
    if "length csv < length jpg"
    using that by (simp add: getitem_def init_def list_getitem_def)
  then show ?thesis
    by (simp add: len_def init_def list_getitem_def)
qed

text \<open>
  C10, witness: the example dataset has five image paths and four annotation paths.
\<close>

theorem len_counts_images_only_witness:
  "len example_ds = 5 \<and> length (csv_paths example_ds) = 4 \<and>
   getitem example_torch example_ds example_fs 4 = Inl IndexError"
  using len_counts_images_only [of "[''a.jpg'', ''b.jpg'', ''c.jpg'', ''d.jpg'', ''e.jpg'']"
      "[''a.csv'', ''b.csv'', ''c.csv'', ''d.csv'']" None True "[]" None False
      example_torch example_fs]
  by (simp add: example_ds_def len_def init_def)

end
